theory Spec2Isabelle
  imports Main
begin

section \<open>Python values and errors\<close>

text \<open>
  The attribute setters of \<open>Review\<close> inspect the dynamic type of what they are given, so
  values are tagged. \<open>PBool\<close> is kept apart from \<open>PInt\<close>: \<open>type(True) is int\<close> is false
  in Python although \<open>isinstance(True, int)\<close> holds. A float is carried as mantissa and
  exponent and is never computed with. Strings are lists of 8-bit characters, read as the
  code points 0 to 255.
\<close>

datatype pyval =
    PNone
  | PBool bool
  | PInt int
  | PFloat int int
  | PStr string

datatype error = ValueError string | OverflowError string

type_synonym addr = nat

subsection \<open>\<open>str.strip()\<close>\<close>

text \<open>The code points below 256 that Python counts as whitespace.\<close>

definition py_isspace :: "char \<Rightarrow> bool" where
  "py_isspace c =
     (c \<in> {CHR 0x09, CHR 0x0A, CHR 0x0B, CHR 0x0C, CHR 0x0D,
           CHR 0x1C, CHR 0x1D, CHR 0x1E, CHR 0x1F, CHR 0x20, CHR 0x85, CHR 0xA0})"

definition strip :: "string \<Rightarrow> string" where
  "strip s = rev (dropWhile py_isspace (rev (dropWhile py_isspace s)))"

section \<open>The Review instance and its validated attributes\<close>

text \<open>
  An instance carries \<open>id\<close> (None, or the integer key of its row), and the three
  attributes behind the properties \<open>year\<close>, \<open>summary\<close> and \<open>employee_id\<close>. The field
  \<open>review_id\<close> is the attribute \<open>id\<close>.
\<close>

record review =
  review_id :: "int option"
  year :: pyval
  summary :: pyval
  employee_id :: pyval

text \<open>
  The Employee collaborator is not part of this module. Its lookup is a parameter:
  \<open>E v\<close> holds when \<open>Employee.find_by_id(v)\<close> returns an Employee (a truthy object) and
  fails when it returns None.
\<close>

type_synonym employee_lookup = "pyval \<Rightarrow> bool"

text \<open>The guards of the three setters: the error raised for a value, if any.\<close>

definition year_check :: "pyval \<Rightarrow> error option" where
  "year_check v =
     (case v of
        PInt n \<Rightarrow>
          if n < 2000 then Some (ValueError ''Year must be 2000 or later.'') else None
      | _ \<Rightarrow> Some (ValueError ''Year must be an integer.''))"

definition summary_check :: "pyval \<Rightarrow> error option" where
  "summary_check v =
     (case v of
        PStr s \<Rightarrow>
          if length (strip s) = 0 then Some (ValueError ''Summary must be a non-empty string.'')
          else None
      | _ \<Rightarrow> Some (ValueError ''Summary must be a non-empty string.''))"

definition employee_id_check :: "employee_lookup \<Rightarrow> pyval \<Rightarrow> error option" where
  "employee_id_check E v = (if \<not> E v then Some (ValueError ''Employee must exist.'') else None)"

text \<open>
  A setter returns its outcome together with the instance as it is afterwards: a raise
  happens before the assignment.
\<close>

definition year_setter :: "pyval \<Rightarrow> review \<Rightarrow> (error + unit) \<times> review" where
  "year_setter v self =
     (case year_check v of
        Some err \<Rightarrow> (Inl err, self)
      | None \<Rightarrow> (Inr (), self\<lparr>year := v\<rparr>))"

definition summary_setter :: "pyval \<Rightarrow> review \<Rightarrow> (error + unit) \<times> review" where
  "summary_setter v self =
     (case summary_check v of
        Some err \<Rightarrow> (Inl err, self)
      | None \<Rightarrow> (Inr (), self\<lparr>summary := v\<rparr>))"

definition employee_id_setter ::
    "employee_lookup \<Rightarrow> pyval \<Rightarrow> review \<Rightarrow> (error + unit) \<times> review" where
  "employee_id_setter E v self =
     (case employee_id_check E v of
        Some err \<Rightarrow> (Inl err, self)
      | None \<Rightarrow> (Inr (), self\<lparr>employee_id := v\<rparr>))"

text \<open>
  \<open>__init__\<close> assigns \<open>id\<close>, then \<open>year\<close>, \<open>summary\<close> and \<open>employee_id\<close> through the
  setters, in this order. When one of them raises, no instance is returned.
\<close>

definition init ::
    "employee_lookup \<Rightarrow> pyval \<Rightarrow> pyval \<Rightarrow> pyval \<Rightarrow> int option \<Rightarrow> error + review" where
  "init E y s e i =
     (case year_check y of
        Some err \<Rightarrow> Inl err
      | None \<Rightarrow>
          (case summary_check s of
             Some err \<Rightarrow> Inl err
           | None \<Rightarrow>
               (case employee_id_check E e of
                  Some err \<Rightarrow> Inl err
                | None \<Rightarrow>
                    Inr \<lparr>review_id = i, year = y, summary = s, employee_id = e\<rparr>)))"

section \<open>The reviews table\<close>

text \<open>
  A row is the tuple \<open>(id, year, summary, employee_id)\<close> as a SELECT returns it; the table
  is the list of its rows in scan order.
\<close>

type_synonym row = "int \<times> pyval \<times> pyval \<times> pyval"

subsection \<open>Binding statement parameters\<close>

text \<open>
  The values given to \<open>CURSOR.execute\<close> are bound one after the other before the statement
  runs. SQLite integers are signed 64-bit: binding a Python int outside that range raises
  OverflowError, and the statement is not run. None, bool (bound as 0 or 1), float and str
  always bind.
\<close>

definition int64 :: "int \<Rightarrow> bool" where
  "int64 n = (- (2 ^ 63) \<le> n \<and> n < 2 ^ 63)"

definition bind_check :: "pyval \<Rightarrow> error option" where
  "bind_check v =
     (case v of
        PInt n \<Rightarrow>
          if int64 n then None
          else Some (OverflowError ''Python int too large to convert to SQLite INTEGER'')
      | _ \<Rightarrow> None)"

fun bind_params :: "pyval list \<Rightarrow> error option" where
  "bind_params [] = None"
| "bind_params (v # vs) =
     (case bind_check v of Some err \<Rightarrow> Some err | None \<Rightarrow> bind_params vs)"

text \<open>\<open>self.id\<close> as a parameter: None or an int.\<close>

definition id_param :: "int option \<Rightarrow> pyval" where
  "id_param i = (case i of None \<Rightarrow> PNone | Some n \<Rightarrow> PInt n)"

subsection \<open>Column affinity\<close>

text \<open>
  \<open>year\<close> and \<open>employee_id\<close> are declared INTEGER and \<open>summary\<close> TEXT. What a column
  gives back for a bound value: an INTEGER column turns a bool into 0 or 1, an integral
  float into an integer, and a text that is a decimal integer (optional sign, blanks
  around it allowed) into that integer; a TEXT column turns an integer into its decimal
  text. SQLite also turns a text that reads as a real number (or as an integer beyond 64
  bits) into a floating value and a float in a TEXT column into text; those two
  conversions are floating-point renderings and are left out here: the value is kept.
\<close>

definition sqlite_isspace :: "char \<Rightarrow> bool" where
  "sqlite_isspace c = (c \<in> {CHR 0x09, CHR 0x0A, CHR 0x0B, CHR 0x0C, CHR 0x0D, CHR 0x20})"

definition is_digit :: "char \<Rightarrow> bool" where
  "is_digit c = (c \<in> set ''0123456789'')"

definition decimal_value :: "string \<Rightarrow> int" where
  "decimal_value ds = foldl (\<lambda>n c. 10 * n + (of_char c - 48)) 0 ds"

definition integer_literal :: "string \<Rightarrow> int option" where
  "integer_literal s =
     (let body = rev (dropWhile sqlite_isspace (rev (dropWhile sqlite_isspace s)));
          neg = (body \<noteq> [] \<and> hd body = CHR ''-'');
          ds = (if body \<noteq> [] \<and> (hd body = CHR ''-'' \<or> hd body = CHR ''+'') then tl body
                else body)
      in if ds \<noteq> [] \<and> list_all is_digit ds
         then Some (if neg then - decimal_value ds else decimal_value ds)
         else None)"

text \<open>The float \<open>m * 2 ^ e\<close> as an integer, when it is one.\<close>

definition float_integer :: "int \<Rightarrow> int \<Rightarrow> int option" where
  "float_integer m e =
     (if 0 \<le> e then Some (m * 2 ^ nat e)
      else if 2 ^ nat (- e) dvd m then Some (m div 2 ^ nat (- e))
      else None)"

definition integer_column :: "pyval \<Rightarrow> pyval" where
  "integer_column v =
     (case v of
        PNone \<Rightarrow> PNone
      | PBool b \<Rightarrow> PInt (if b then 1 else 0)
      | PInt n \<Rightarrow> PInt n
      | PFloat m e \<Rightarrow>
          (case float_integer m e of
             Some n \<Rightarrow> if - (2 ^ 63) < n \<and> n < 2 ^ 63 - 1 then PInt n else PFloat m e
           | None \<Rightarrow> PFloat m e)
      | PStr s \<Rightarrow>
          (case integer_literal s of
             Some n \<Rightarrow> if int64 n then PInt n else PStr s
           | None \<Rightarrow> PStr s))"

fun decimal_nat :: "nat \<Rightarrow> string" where
  "decimal_nat n =
     (if n < 10 then [char_of (48 + n)]
      else decimal_nat (n div 10) @ [char_of (48 + n mod 10)])"

definition decimal :: "int \<Rightarrow> string" where
  "decimal n = (if n < 0 then CHR ''-'' # decimal_nat (nat (- n)) else decimal_nat (nat n))"

definition text_column :: "pyval \<Rightarrow> pyval" where
  "text_column v =
     (case v of
        PNone \<Rightarrow> PNone
      | PBool b \<Rightarrow> PStr (if b then ''1'' else ''0'')
      | PInt n \<Rightarrow> PStr (decimal n)
      | PFloat m e \<Rightarrow> PFloat m e
      | PStr s \<Rightarrow> PStr s)"

subsection \<open>The four statements\<close>

text \<open>
  An INSERT with no id picks 1 for an empty table and the largest id plus one otherwise
  (what \<open>lastrowid\<close> then reports); once the largest id is \<open>2 ^ 63 - 1\<close> SQLite looks
  for an unused id at random instead, and tables are taken below that point. A statement
  keyed by NULL matches no row.
\<close>

definition new_rowid :: "row list \<Rightarrow> int" where
  "new_rowid tbl = (case tbl of [] \<Rightarrow> 1 | r # rs \<Rightarrow> fold max (map fst rs) (fst r) + 1)"

definition insert_row :: "row list \<Rightarrow> pyval \<Rightarrow> pyval \<Rightarrow> pyval \<Rightarrow> row list" where
  "insert_row tbl y s e =
     tbl @ [(new_rowid tbl, integer_column y, text_column s, integer_column e)]"

definition update_row :: "row list \<Rightarrow> pyval \<Rightarrow> pyval \<Rightarrow> pyval \<Rightarrow> int option \<Rightarrow> row list" where
  "update_row tbl y s e i =
     map (\<lambda>r. if Some (fst r) = i
              then (fst r, integer_column y, text_column s, integer_column e) else r) tbl"

definition delete_row :: "row list \<Rightarrow> int option \<Rightarrow> row list" where
  "delete_row tbl i = filter (\<lambda>r. Some (fst r) \<noteq> i) tbl"

definition select_by_id :: "row list \<Rightarrow> int option \<Rightarrow> row option" where
  "select_by_id tbl i = find (\<lambda>r. Some (fst r) = i) tbl"

section \<open>The process state\<close>

text \<open>
  Instances live in a store and are known by their address, so that two references to the
  same instance are the same address. \<open>all_dict\<close> is the class attribute \<open>Review.all\<close>,
  from row id to instance; \<open>table\<close> is the persisted table.
\<close>

record world =
  heap :: "addr \<Rightarrow> review"
  next_addr :: addr
  all_dict :: "int \<rightharpoonup> addr"
  table :: "row list"

definition alloc :: "review \<Rightarrow> world \<Rightarrow> addr \<times> world" where
  "alloc r w = (next_addr w, w\<lparr>heap := (heap w)(next_addr w := r), next_addr := Suc (next_addr w)\<rparr>)"

text \<open>The assignments \<open>obj.year = v\<close>, \<open>obj.summary = v\<close>, \<open>obj.employee_id = v\<close>.\<close>

definition setattr_year :: "addr \<Rightarrow> pyval \<Rightarrow> world \<Rightarrow> (error + unit) \<times> world" where
  "setattr_year a v w =
     (case year_setter v (heap w a) of
        (res, self) \<Rightarrow> (res, w\<lparr>heap := (heap w)(a := self)\<rparr>))"

definition setattr_summary :: "addr \<Rightarrow> pyval \<Rightarrow> world \<Rightarrow> (error + unit) \<times> world" where
  "setattr_summary a v w =
     (case summary_setter v (heap w a) of
        (res, self) \<Rightarrow> (res, w\<lparr>heap := (heap w)(a := self)\<rparr>))"

definition setattr_employee_id ::
    "employee_lookup \<Rightarrow> addr \<Rightarrow> pyval \<Rightarrow> world \<Rightarrow> (error + unit) \<times> world" where
  "setattr_employee_id E a v w =
     (case employee_id_setter E v (heap w a) of
        (res, self) \<Rightarrow> (res, w\<lparr>heap := (heap w)(a := self)\<rparr>))"

section \<open>Persistence operations\<close>

text \<open>
  \<open>update\<close> and the insert of \<open>save\<close> raise what the binding raises, before anything is
  written.
\<close>

definition update :: "addr \<Rightarrow> world \<Rightarrow> (error + unit) \<times> world" where
  "update a w =
     (let self = heap w a in
      case bind_params [year self, summary self, employee_id self, id_param (review_id self)] of
        Some err \<Rightarrow> (Inl err, w)
      | None \<Rightarrow>
          (Inr (),
           w\<lparr>table := update_row (table w) (year self) (summary self) (employee_id self)
                        (review_id self)\<rparr>))"

text \<open>\<open>if self.id:\<close> is a truth test: None and 0 both take the else branch.\<close>

definition truthy_id :: "int option \<Rightarrow> bool" where
  "truthy_id i = (case i of None \<Rightarrow> False | Some n \<Rightarrow> n \<noteq> 0)"

definition save :: "addr \<Rightarrow> world \<Rightarrow> (error + unit) \<times> world" where
  "save a w =
     (let self = heap w a in
      if truthy_id (review_id self) then update a w
      else
        (case bind_params [year self, summary self, employee_id self] of
           Some err \<Rightarrow> (Inl err, w)
         | None \<Rightarrow>
             (let n = new_rowid (table w) in
              (Inr (),
               w\<lparr>table := insert_row (table w) (year self) (summary self) (employee_id self),
                 heap := (heap w)(a := self\<lparr>review_id := Some n\<rparr>),
                 all_dict := (all_dict w)(n \<mapsto> a)\<rparr>))))"

definition create ::
    "employee_lookup \<Rightarrow> pyval \<Rightarrow> pyval \<Rightarrow> pyval \<Rightarrow> world \<Rightarrow> (error + addr) \<times> world" where
  "create E y s e w =
     (case init E y s e None of
        Inl err \<Rightarrow> (Inl err, w)
      | Inr r \<Rightarrow>
          (case alloc r w of
             (a, w1) \<Rightarrow>
               (case save a w1 of
                  (Inl err, w2) \<Rightarrow> (Inl err, w2)
                | (Inr _, w2) \<Rightarrow> (Inr a, w2))))"

text \<open>
  \<open>delete\<close> and \<open>find_by_id\<close> bind a single id. They are taken at the ids a row can have,
  those within 64 bits, where the binding cannot fail.
\<close>

definition delete :: "addr \<Rightarrow> world \<Rightarrow> world" where
  "delete a w =
     (let self = heap w a;
          original_id = review_id self
      in w\<lparr>table := delete_row (table w) original_id,
           heap := (heap w)(a := self\<lparr>review_id := None\<rparr>),
           all_dict :=
             (case original_id of
                None \<Rightarrow> all_dict w
              | Some k \<Rightarrow> if k \<in> dom (all_dict w) then (all_dict w)(k := None) else all_dict w)\<rparr>)"

definition instance_from_db ::
    "employee_lookup \<Rightarrow> row \<Rightarrow> world \<Rightarrow> (error + addr) \<times> world" where
  "instance_from_db E r w =
     (case r of (i, y, s, e) \<Rightarrow>
        (case all_dict w i of
           Some a \<Rightarrow>
             (case setattr_year a y w of
                (Inl err, w1) \<Rightarrow> (Inl err, w1)
              | (Inr _, w1) \<Rightarrow>
                  (case setattr_summary a s w1 of
                     (Inl err, w2) \<Rightarrow> (Inl err, w2)
                   | (Inr _, w2) \<Rightarrow>
                       (case setattr_employee_id E a e w2 of
                          (Inl err, w3) \<Rightarrow> (Inl err, w3)
                        | (Inr _, w3) \<Rightarrow> (Inr a, w3))))
         | None \<Rightarrow>
             (case init E y s e (Some i) of
                Inl err \<Rightarrow> (Inl err, w)
              | Inr rv \<Rightarrow>
                  (case alloc rv w of
                     (a, w1) \<Rightarrow> (Inr a, w1\<lparr>all_dict := (all_dict w1)(i \<mapsto> a)\<rparr>)))))"

definition find_by_id ::
    "employee_lookup \<Rightarrow> int option \<Rightarrow> world \<Rightarrow> (error + addr option) \<times> world" where
  "find_by_id E i w =
     (case select_by_id (table w) i of
        None \<Rightarrow> (Inr None, w)
      | Some r \<Rightarrow>
          (case instance_from_db E r w of
             (Inl err, w1) \<Rightarrow> (Inl err, w1)
           | (Inr a, w1) \<Rightarrow> (Inr (Some a), w1)))"

text \<open>The list comprehension of \<open>get_all\<close>: it stops at the first row that raises.\<close>

fun instances_from_db ::
    "employee_lookup \<Rightarrow> row list \<Rightarrow> world \<Rightarrow> (error + addr list) \<times> world" where
  "instances_from_db E [] w = (Inr [], w)"
| "instances_from_db E (r # rs) w =
     (case instance_from_db E r w of
        (Inl err, w1) \<Rightarrow> (Inl err, w1)
      | (Inr a, w1) \<Rightarrow>
          (case instances_from_db E rs w1 of
             (Inl err, w2) \<Rightarrow> (Inl err, w2)
           | (Inr as, w2) \<Rightarrow> (Inr (a # as), w2)))"

definition get_all :: "employee_lookup \<Rightarrow> world \<Rightarrow> (error + addr list) \<times> world" where
  "get_all E w = instances_from_db E (table w) w"

section \<open>The identity-cache invariant and example states\<close>

text \<open>
  Every cached address is allocated, and the instance cached under a key carries that key
  as its \<open>id\<close>.
\<close>

definition cache_ok :: "world \<Rightarrow> bool" where
  "cache_ok w =
     (\<forall>k a. all_dict w k = Some a \<longrightarrow> a < next_addr w \<and> review_id (heap w a) = Some k)"

text \<open>Employee 1 exists and no other.\<close>

definition example_lookup :: employee_lookup where
  "example_lookup v = (v = PInt 1)"


definition example_review :: review where
  "example_review =
     \<lparr>review_id = None, year = PInt 2000, summary = PStr ''x'', employee_id = PInt 1\<rparr>"

text \<open>A fresh process on an empty table.\<close>

definition empty_world :: world where
  "empty_world =
     \<lparr>heap = (\<lambda>_. example_review), next_addr = 0, all_dict = Map.empty, table = []\<rparr>"

text \<open>The state after \<open>Review.create(2023, "Good work", 1)\<close> in a fresh process.\<close>

definition saved_world :: world where
  "saved_world =
     \<lparr>heap = (\<lambda>_. \<lparr>review_id = Some 1, year = PInt 2023, summary = PStr ''Good work'',
                    employee_id = PInt 1\<rparr>),
      next_addr = 1,
      all_dict = [1 \<mapsto> 0],
      table = [(1, PInt 2023, PStr ''Good work'', PInt 1)]\<rparr>"

text \<open>
  A table whose only row has id 0, that row fetched into the cache, and the fetched
  instance given a new year and summary.
\<close>

definition zero_id_world :: world where
  "zero_id_world =
     \<lparr>heap = (\<lambda>_. \<lparr>review_id = Some 0, year = PInt 2023, summary = PStr ''Good work'',
                    employee_id = PInt 1\<rparr>),
      next_addr = 1,
      all_dict = [0 \<mapsto> 0],
      table = [(0, PInt 2021, PStr ''Old'', PInt 1)]\<rparr>"

section \<open>Facts about the table\<close>




lemma select_by_id_None_iff:
  "select_by_id tbl i = None \<longleftrightarrow> (\<forall>r\<in>set tbl. Some (fst r) \<noteq> i)"
  by (force simp: select_by_id_def find_None_iff)




lemma select_by_id_delete_row: "select_by_id (delete_row tbl i) i = None"
  by (simp add: select_by_id_None_iff delete_row_def)



lemma filter_update_row:
  "filter (\<lambda>r. Some (fst r) \<noteq> i) (update_row tbl y s e i) = filter (\<lambda>r. Some (fst r) \<noteq> i) tbl"
  by (induction tbl) (auto simp: update_row_def)

lemma filter_delete_row:
  "filter (\<lambda>r. Some (fst r) \<noteq> i) (delete_row tbl i) = filter (\<lambda>r. Some (fst r) \<noteq> i) tbl"
  by (simp add: delete_row_def)

section \<open>Facts about binding and columns\<close>




lemma bind_check_overflow:
  "\<not> int64 n \<Longrightarrow>
   bind_check (PInt n) = Some (OverflowError ''Python int too large to convert to SQLite INTEGER'')"
  by (simp add: bind_check_def)





section \<open>Facts about the operations\<close>




text \<open>
  The constructor is the three setters run in order on the new object, whatever its
  attributes held before.
\<close>

lemma init_as_setters:
  assumes "review_id r0 = i"
  shows "init E y s e i =
           (case year_setter y r0 of
              (Inl err, r1) \<Rightarrow> Inl err
            | (Inr u, r1) \<Rightarrow>
                (case summary_setter s r1 of
                   (Inl err, r2) \<Rightarrow> Inl err
                 | (Inr u, r2) \<Rightarrow>
                     (case employee_id_setter E e r2 of
                        (Inl err, r3) \<Rightarrow> Inl err
                      | (Inr u, r3) \<Rightarrow> Inr r3)))"
  using assms
  by (cases r0)
    (auto simp: init_def year_setter_def summary_setter_def employee_id_setter_def
       split: option.splits)

lemma init_ok:
  "year_check y = None \<Longrightarrow> summary_check s = None \<Longrightarrow> E e \<Longrightarrow>
   init E y s e i = Inr \<lparr>review_id = i, year = y, summary = s, employee_id = e\<rparr>"
  by (simp add: init_def employee_id_check_def)


lemma instance_from_db_fresh:
  assumes "all_dict w i = None" "year_check y = None" "summary_check s = None" "E e"
  shows "instance_from_db E (i, y, s, e) w =
           (Inr (next_addr w),
            w\<lparr>heap := (heap w)(next_addr w :=
                   \<lparr>review_id = Some i, year = y, summary = s, employee_id = e\<rparr>),
              next_addr := Suc (next_addr w),
              all_dict := (all_dict w)(i \<mapsto> next_addr w)\<rparr>)"
  using assms by (simp add: instance_from_db_def init_ok alloc_def)

lemma instance_from_db_table: "table (snd (instance_from_db E r w)) = table w"
  by (cases r)
    (auto simp: instance_from_db_def setattr_year_def setattr_summary_def
       setattr_employee_id_def alloc_def split: option.splits sum.splits prod.splits)

lemma instance_from_db_outcome:
  "fst (instance_from_db E (i, y, s, e) w) =
     (case year_check y of
        Some err \<Rightarrow> Inl err
      | None \<Rightarrow>
          (case summary_check s of
             Some err \<Rightarrow> Inl err
           | None \<Rightarrow>
               (case employee_id_check E e of
                  Some err \<Rightarrow> Inl err
                | None \<Rightarrow>
                    Inr (case all_dict w i of Some a \<Rightarrow> a | None \<Rightarrow> next_addr w))))"
  by (auto simp: instance_from_db_def setattr_year_def setattr_summary_def
       setattr_employee_id_def year_setter_def summary_setter_def employee_id_setter_def
       init_def alloc_def split: option.splits sum.splits prod.splits)

lemma instance_from_db_all_dict:
  "all_dict (snd (instance_from_db E (i, y, s, e) w)) =
     (case fst (instance_from_db E (i, y, s, e) w) of
        Inl err \<Rightarrow> all_dict w
      | Inr a \<Rightarrow> (all_dict w)(i \<mapsto> a))"
  by (auto simp: instance_from_db_def setattr_year_def setattr_summary_def
       setattr_employee_id_def year_setter_def summary_setter_def employee_id_setter_def
       init_def alloc_def split: option.splits sum.splits prod.splits)

lemma save_insert_ok:
  assumes "\<not> truthy_id (review_id (heap w a))"
      and "bind_params [year (heap w a), summary (heap w a), employee_id (heap w a)] = None"
  shows "save a w =
           (Inr (),
            w\<lparr>table := insert_row (table w) (year (heap w a)) (summary (heap w a))
                         (employee_id (heap w a)),
              heap := (heap w)(a := (heap w a)\<lparr>review_id := Some (new_rowid (table w))\<rparr>),
              all_dict := (all_dict w)(new_rowid (table w) \<mapsto> a)\<rparr>)"
  using assms by (simp add: save_def Let_def del: bind_params.simps)

lemma save_insert_error:
  assumes "\<not> truthy_id (review_id (heap w a))"
      and "bind_params [year (heap w a), summary (heap w a), employee_id (heap w a)] = Some err"
  shows "save a w = (Inl err, w)"
  using assms by (simp add: save_def Let_def del: bind_params.simps)



lemma update_ok:
  assumes "bind_params [year (heap w a), summary (heap w a), employee_id (heap w a),
             id_param (review_id (heap w a))] = None"
  shows "update a w =
           (Inr (),
            w\<lparr>table := update_row (table w) (year (heap w a)) (summary (heap w a))
                         (employee_id (heap w a)) (review_id (heap w a))\<rparr>)"
proof -
  have "(case bind_params [year (heap w a), summary (heap w a), employee_id (heap w a),
             id_param (review_id (heap w a))] of
          Some err \<Rightarrow> (Inl err, w)
        | None \<Rightarrow> (Inr (),
            w\<lparr>table := update_row (table w) (year (heap w a)) (summary (heap w a))
                         (employee_id (heap w a)) (review_id (heap w a))\<rparr>))
        = (Inr (),
            w\<lparr>table := update_row (table w) (year (heap w a)) (summary (heap w a))
                         (employee_id (heap w a)) (review_id (heap w a))\<rparr>)"
    by (simp only: assms option.case)
  then show ?thesis by (simp only: update_def Let_def)
qed

lemma update_bind_error:
  assumes "bind_params [year (heap w a), summary (heap w a), employee_id (heap w a),
             id_param (review_id (heap w a))] = Some err"
  shows "update a w = (Inl err, w)"
proof -
  have "(case bind_params [year (heap w a), summary (heap w a), employee_id (heap w a),
             id_param (review_id (heap w a))] of
          Some err \<Rightarrow> (Inl err, w)
        | None \<Rightarrow> (Inr (),
            w\<lparr>table := update_row (table w) (year (heap w a)) (summary (heap w a))
                         (employee_id (heap w a)) (review_id (heap w a))\<rparr>))
        = (Inl err, w)"
    by (simp only: assms option.case)
  then show ?thesis by (simp only: update_def Let_def)
qed

lemma update_table_cases:
  "table (snd (update a w)) = table w \<or>
   table (snd (update a w)) =
     update_row (table w) (year (heap w a)) (summary (heap w a)) (employee_id (heap w a))
       (review_id (heap w a))"
  by (cases "bind_params [year (heap w a), summary (heap w a), employee_id (heap w a),
             id_param (review_id (heap w a))]")
    (simp_all add: update_ok update_bind_error)


lemma save_unsaved:
  assumes "review_id (heap w a) = None"
      and "bind_params [year (heap w a), summary (heap w a), employee_id (heap w a)] = None"
  shows "fst (save a w) = Inr () \<and>
         table (snd (save a w)) =
           table w @ [(new_rowid (table w), integer_column (year (heap w a)),
                       text_column (summary (heap w a)),
                       integer_column (employee_id (heap w a)))] \<and>
         review_id (heap (snd (save a w)) a) = Some (new_rowid (table w)) \<and>
         all_dict (snd (save a w)) (new_rowid (table w)) = Some a"
proof -
  have 1: "\<not> truthy_id (review_id (heap w a))" using assms(1) by (simp add: truthy_id_def)
  show ?thesis by (simp add: save_insert_ok [OF 1 assms(2)] insert_row_def)
qed

lemma save_saved:
  assumes "review_id (heap w a) = Some i" "i \<noteq> 0"
  shows "save a w = update a w"
  using assms by (simp add: save_def truthy_id_def)

lemma find_by_id_repeat_outcome:
  "fst (find_by_id E i (snd (find_by_id E i w))) = fst (find_by_id E i w)"
proof (cases "select_by_id (table w) i")
  case None
  then show ?thesis by (simp add: find_by_id_def)
next
  case (Some r)
  obtain k y s e where r: "r = (k, y, s, e)" by (cases r) auto
  define res where "res = fst (instance_from_db E r w)"
  define w1 where "w1 = snd (instance_from_db E r w)"
  have t1: "table w1 = table w" by (simp add: w1_def instance_from_db_table)
  have f1: "find_by_id E i w = (case res of Inl err \<Rightarrow> (Inl err, w1) | Inr a \<Rightarrow> (Inr (Some a), w1))"
    by (simp add: find_by_id_def Some res_def w1_def split: prod.splits sum.splits)
  have s1: "snd (find_by_id E i w) = w1"
    by (simp add: f1 split: sum.splits)
  have "fst (instance_from_db E r w1) = res"
    unfolding r instance_from_db_outcome
    using instance_from_db_all_dict [of E k y s e w]
    by (auto simp: res_def w1_def r instance_from_db_outcome split: option.splits)
  then have "fst (find_by_id E i w1) = (case res of Inl err \<Rightarrow> Inl err | Inr a \<Rightarrow> Inr (Some a))"
    by (cases "instance_from_db E r w1") (auto simp: find_by_id_def t1 Some split: sum.splits)
  then show ?thesis by (simp add: s1 f1 split: sum.splits)
qed

section \<open>The identity cache stays consistent, except through a save at id 0\<close>

text \<open>
  Each operation keeps \<open>cache_ok\<close>; for \<open>save\<close> this needs an instance whose id is not 0.
\<close>

lemma cache_okI:
  assumes "\<And>k a. all_dict w k = Some a \<Longrightarrow> a < next_addr w"
      and "\<And>k a. all_dict w k = Some a \<Longrightarrow> review_id (heap w a) = Some k"
  shows "cache_ok w"
  using assms by (simp add: cache_ok_def)

lemma cache_ok_addr: "cache_ok w \<Longrightarrow> all_dict w k = Some a \<Longrightarrow> a < next_addr w"
  by (simp add: cache_ok_def)

lemma cache_ok_id: "cache_ok w \<Longrightarrow> all_dict w k = Some a \<Longrightarrow> review_id (heap w a) = Some k"
  by (simp add: cache_ok_def)

lemma update_keeps_cache:
  "all_dict (snd (update a w)) = all_dict w \<and> heap (snd (update a w)) = heap w \<and>
   next_addr (snd (update a w)) = next_addr w"
  by (cases "bind_params [year (heap w a), summary (heap w a), employee_id (heap w a),
             id_param (review_id (heap w a))]")
    (simp_all add: update_ok update_bind_error)

lemma cache_ok_update: "cache_ok w \<Longrightarrow> cache_ok (snd (update a w))"
  by (simp add: cache_ok_def update_keeps_cache)

lemma cache_ok_delete: "cache_ok w \<Longrightarrow> cache_ok (delete a w)"
  by (auto simp: cache_ok_def delete_def Let_def split: option.splits if_splits)

lemma cache_ok_save:
  assumes "cache_ok w" "a < next_addr w" "review_id (heap w a) \<noteq> Some 0"
  shows "cache_ok (snd (save a w))"
proof (cases "truthy_id (review_id (heap w a))")
  case True
  then show ?thesis using assms(1) by (simp add: save_def cache_ok_update)
next
  case False
  with assms(3) have unsaved: "review_id (heap w a) = None"
    by (cases "review_id (heap w a)") (auto simp: truthy_id_def)
  show ?thesis
  proof (cases "bind_params [year (heap w a), summary (heap w a), employee_id (heap w a)]")
    case (Some err)
    then have "save a w = (Inl err, w)"
      using False by (rule save_insert_error [rotated])
    then show ?thesis using assms(1) by simp
  next
    case None
    then have sv: "save a w =
        (Inr (),
         w\<lparr>table := insert_row (table w) (year (heap w a)) (summary (heap w a))
                      (employee_id (heap w a)),
           heap := (heap w)(a := (heap w a)\<lparr>review_id := Some (new_rowid (table w))\<rparr>),
           all_dict := (all_dict w)(new_rowid (table w) \<mapsto> a)\<rparr>)"
      using False by (rule save_insert_ok [rotated])
    show ?thesis
    proof (rule cache_okI)
      fix k b assume "all_dict (snd (save a w)) k = Some b"
      then show "b < next_addr (snd (save a w))"
        using assms(1,2) by (auto simp: sv split: if_splits dest: cache_ok_addr)
    next
      fix k b assume "all_dict (snd (save a w)) k = Some b"
      then show "review_id (heap (snd (save a w)) b) = Some k"
        using assms(1) unsaved by (auto simp: sv split: if_splits dest: cache_ok_id)
    qed
  qed
qed

lemma cache_ok_instance_from_db:
  assumes "cache_ok w"
  shows "cache_ok (snd (instance_from_db E r w))"
proof (rule cache_okI)
  fix k b assume "all_dict (snd (instance_from_db E r w)) k = Some b"
  then show "b < next_addr (snd (instance_from_db E r w))"
    using assms
    by (cases r)
      (auto simp: instance_from_db_def setattr_year_def setattr_summary_def
         setattr_employee_id_def year_setter_def summary_setter_def employee_id_setter_def
         init_def alloc_def less_Suc_eq
         split: option.splits sum.splits prod.splits if_splits dest: cache_ok_addr)
next
  fix k b assume "all_dict (snd (instance_from_db E r w)) k = Some b"
  then show "review_id (heap (snd (instance_from_db E r w)) b) = Some k"
    using assms
    by (cases r)
      (auto simp: instance_from_db_def setattr_year_def setattr_summary_def
         setattr_employee_id_def year_setter_def summary_setter_def employee_id_setter_def
         init_def alloc_def
         split: option.splits sum.splits prod.splits if_splits
         dest: cache_ok_addr cache_ok_id)
qed

lemma cache_ok_find_by_id:
  assumes "cache_ok w"
  shows "cache_ok (snd (find_by_id E i w))"
proof (cases "select_by_id (table w) i")
  case None
  then show ?thesis using assms by (simp add: find_by_id_def)
next
  case (Some r)
  have "cache_ok (snd (instance_from_db E r w))"
    using assms by (rule cache_ok_instance_from_db)
  then show ?thesis
    by (cases "instance_from_db E r w") (auto simp: find_by_id_def Some split: sum.splits)
qed

lemma cache_ok_instances_from_db:
  "cache_ok w \<Longrightarrow> cache_ok (snd (instances_from_db E rs w))"
proof (induction rs arbitrary: w)
  case Nil
  then show ?case by simp
next
  case (Cons r rs)
  have 1: "cache_ok (snd (instance_from_db E r w))"
    using Cons.prems by (rule cache_ok_instance_from_db)
  show ?case
    using 1 Cons.IH [of "snd (instance_from_db E r w)"]
    by (auto split: prod.splits sum.splits)
qed

lemma cache_ok_get_all: "cache_ok w \<Longrightarrow> cache_ok (snd (get_all E w))"
  by (simp add: get_all_def cache_ok_instances_from_db)

lemma cache_ok_create:
  assumes "cache_ok w"
  shows "cache_ok (snd (create E y s e w))"
proof (cases "init E y s e None")
  case (Inl err)
  then show ?thesis using assms by (simp add: create_def)
next
  case (Inr r)
  then have unsaved: "review_id r = None"
    by (auto simp: init_def split: option.splits)
  define w1 where "w1 = snd (alloc r w)"
  have a: "alloc r w = (next_addr w, w1)" by (simp add: w1_def alloc_def)
  have "cache_ok w1"
  proof (rule cache_okI)
    fix k b assume "all_dict w1 k = Some b"
    then show "b < next_addr w1"
      using assms by (auto simp: w1_def alloc_def less_Suc_eq dest: cache_ok_addr)
  next
    fix k b assume "all_dict w1 k = Some b"
    then show "review_id (heap w1 b) = Some k"
      using assms by (auto simp: w1_def alloc_def dest: cache_ok_addr cache_ok_id)
  qed
  moreover have "next_addr w < next_addr w1" by (simp add: w1_def alloc_def)
  moreover have "review_id (heap w1 (next_addr w)) \<noteq> Some 0"
    using unsaved by (simp add: w1_def alloc_def)
  ultimately have "cache_ok (snd (save (next_addr w) w1))" by (rule cache_ok_save)
  then show ?thesis
    by (cases "save (next_addr w) w1") (auto simp: create_def Inr a split: sum.splits)
qed

section \<open>The claims\<close>




text \<open>
  C2 (the code departs from it). \<open>save\<close> tests \<open>self.id\<close> for truth, so an instance whose
  id is 0 is treated as having none: here the row 0 is left as it was, a second row is
  inserted, and the instance is renumbered, where \<open>update\<close> would have rewritten row 0.
\<close>

theorem save_with_zero_id_inserts:
  "review_id (heap zero_id_world 0) = Some 0 \<and>
   fst (save 0 zero_id_world) = Inr () \<and>
   table (snd (save 0 zero_id_world)) =
     [(0, PInt 2021, PStr ''Old'', PInt 1), (1, PInt 2023, PStr ''Good work'', PInt 1)] \<and>
   fst (update 0 zero_id_world) = Inr () \<and>
   table (snd (update 0 zero_id_world)) = [(0, PInt 2023, PStr ''Good work'', PInt 1)] \<and>
   review_id (heap (snd (save 0 zero_id_world)) 0) = Some 1"
  by (simp add: zero_id_world_def save_def update_def truthy_id_def Let_def insert_row_def
        new_rowid_def update_row_def bind_check_def int64_def id_param_def
        integer_column_def text_column_def)

text \<open>
  C3. For an instance with an id, after \<open>delete\<close> a \<open>find_by_id\<close> with that id returns
  None and changes nothing, the instance's id is None, and the id is no key of the cache.
\<close>

theorem delete_then_find_by_id_absent:
  assumes "review_id (heap w a) = Some i"
  shows "find_by_id E (Some i) (delete a w) = (Inr None, delete a w) \<and>
         review_id (heap (delete a w) a) = None \<and>
         i \<notin> dom (all_dict (delete a w))"
proof -
  have t: "table (delete a w) = delete_row (table w) (Some i)"
    using assms by (simp add: delete_def Let_def)
  have "find_by_id E (Some i) (delete a w) = (Inr None, delete a w)"
    by (simp add: find_by_id_def t select_by_id_delete_row)
  moreover have "review_id (heap (delete a w) a) = None"
    by (simp add: delete_def Let_def)
  moreover have "i \<notin> dom (all_dict (delete a w))"
    using assms by (auto simp: delete_def Let_def)
  ultimately show ?thesis by simp
qed

theorem delete_then_find_by_id_absent_witness:
  "review_id (heap saved_world 0) = Some 1 \<and>
   select_by_id (table saved_world) (Some 1) \<noteq> None \<and>
   find_by_id example_lookup (Some 1) (delete 0 saved_world) = (Inr None, delete 0 saved_world) \<and>
   review_id (heap (delete 0 saved_world) 0) = None \<and>
   1 \<notin> dom (all_dict (delete 0 saved_world))"
proof -
  have h: "review_id (heap saved_world 0) = Some 1" by (simp add: saved_world_def)
  have p: "select_by_id (table saved_world) (Some 1) \<noteq> None"
    by (simp add: saved_world_def select_by_id_def)
  show ?thesis
    using h p delete_then_find_by_id_absent [OF h, of example_lookup] by simp
qed

text \<open>
  C4. Assigning \<open>year = v\<close> stores \<open>v\<close> when \<open>v\<close> is an \<open>int\<close> of at least 2000, and
  otherwise raises a ValueError and leaves the instance (and the whole state) as it was.
  The constructor fails with one of the two year errors exactly for the same values, and
  an instance it returns carries the year it was given.
\<close>

theorem year_setter_validation:
  "((\<exists>n. v = PInt n \<and> 2000 \<le> n) \<longrightarrow>
      year_setter v self = (Inr (), self\<lparr>year := v\<rparr>) \<and>
      year (snd (year_setter v self)) = v) \<and>
   (\<not> (\<exists>n. v = PInt n \<and> 2000 \<le> n) \<longrightarrow>
      (\<exists>m. year_setter v self = (Inl (ValueError m), self) \<and>
           setattr_year a v w = (Inl (ValueError m), w))) \<and>
   (init E v s e i \<in> {Inl (ValueError ''Year must be an integer.''),
                       Inl (ValueError ''Year must be 2000 or later.'')})
     = (\<not> (\<exists>n. v = PInt n \<and> 2000 \<le> n)) \<and>
   (\<forall>r. init E v s e i = Inr r \<longrightarrow> year r = v)"
proof -
  have set_ok: "year_setter v self = (Inr (), self\<lparr>year := v\<rparr>)"
    if "\<exists>n. v = PInt n \<and> 2000 \<le> n"
    using that by (auto simp: year_setter_def year_check_def)
  have set_fail: "\<exists>m. year_setter v self = (Inl (ValueError m), self) \<and>
           setattr_year a v w = (Inl (ValueError m), w)"
    if "\<not> (\<exists>n. v = PInt n \<and> 2000 \<le> n)"
    using that by (cases v) (auto simp: setattr_year_def year_setter_def year_check_def)
  have init_err: "(init E v s e i \<in> {Inl (ValueError ''Year must be an integer.''),
                       Inl (ValueError ''Year must be 2000 or later.'')})
     = (\<not> (\<exists>n. v = PInt n \<and> 2000 \<le> n))"
    by (cases v)
      (auto simp: init_def year_check_def summary_check_def employee_id_check_def
         split: option.splits pyval.splits if_splits)
  have init_year: "\<forall>r. init E v s e i = Inr r \<longrightarrow> year r = v"
    by (auto simp: init_def split: option.splits)
  show ?thesis using set_ok set_fail init_err init_year by simp
qed

theorem year_setter_validation_witness:
  "year_setter (PInt 2023) example_review = (Inr (), example_review\<lparr>year := PInt 2023\<rparr>) \<and>
   (\<exists>m. year_setter (PInt 1999) example_review = (Inl (ValueError m), example_review)) \<and>
   (\<exists>m. year_setter (PStr ''2023'') example_review = (Inl (ValueError m), example_review))"
  using year_setter_validation [of "PInt 2023" example_review 0 empty_world example_lookup
      "PStr ''x''" "PInt 1" None]
    year_setter_validation [of "PInt 1999" example_review 0 empty_world example_lookup
      "PStr ''x''" "PInt 1" None]
    year_setter_validation [of "PStr ''2023''" example_review 0 empty_world example_lookup
      "PStr ''x''" "PInt 1" None]
  by auto

text \<open>
  C5. Assigning \<open>employee_id = v\<close> stores \<open>v\<close> when the Employee lookup finds a record
  for \<open>v\<close>, and otherwise raises the ValueError "Employee must exist." and leaves the
  instance (and the whole state) as it was. The same holds in the constructor once the
  year and the summary have passed.
\<close>

theorem employee_id_setter_validation:
  "(E v \<longrightarrow> employee_id_setter E v self = (Inr (), self\<lparr>employee_id := v\<rparr>)) \<and>
   (\<not> E v \<longrightarrow>
      employee_id_setter E v self = (Inl (ValueError ''Employee must exist.''), self) \<and>
      setattr_employee_id E a v w = (Inl (ValueError ''Employee must exist.''), w)) \<and>
   (\<forall>r. init E y s v i = Inr r \<longrightarrow> E v \<and> employee_id r = v) \<and>
   (year_check y = None \<and> summary_check s = None \<longrightarrow>
      (init E y s v i = Inl (ValueError ''Employee must exist.'')) = (\<not> E v))"
  by (auto simp: employee_id_setter_def setattr_employee_id_def employee_id_check_def init_def
        split: option.splits if_splits)

theorem employee_id_setter_validation_witness:
  "example_lookup (PInt 1) \<and> \<not> example_lookup (PInt 2) \<and>
   employee_id_setter example_lookup (PInt 1) example_review =
     (Inr (), example_review\<lparr>employee_id := PInt 1\<rparr>) \<and>
   employee_id_setter example_lookup (PInt 2) example_review =
     (Inl (ValueError ''Employee must exist.''), example_review)"
  using employee_id_setter_validation [of example_lookup "PInt 1" example_review 0 empty_world
      "PInt 2023" "PStr ''x''" None]
    employee_id_setter_validation [of example_lookup "PInt 2" example_review 0 empty_world
      "PInt 2023" "PStr ''x''" None]
  by (simp add: example_lookup_def)






text \<open>
  C8 (the code departs from it). A row with id 0 is materialised from an empty state: the
  new instance sits at address 0, cached under key 0 with id 0. \<open>save\<close> on it then takes
  the insert branch, so that key 0 of the cache still holds the instance while its id has
  become 1.
\<close>

theorem cache_agreement_broken_by_save:
  "fst (instance_from_db example_lookup (0, PInt 2023, PStr ''Good work'', PInt 1) empty_world)
     = Inr 0 \<and>
   all_dict (snd (instance_from_db example_lookup (0, PInt 2023, PStr ''Good work'', PInt 1)
       empty_world)) 0 = Some 0 \<and>
   review_id (heap (snd (instance_from_db example_lookup
       (0, PInt 2023, PStr ''Good work'', PInt 1) empty_world)) 0) = Some 0 \<and>
   fst (save 0 (snd (instance_from_db example_lookup
       (0, PInt 2023, PStr ''Good work'', PInt 1) empty_world))) = Inr () \<and>
   all_dict (snd (save 0 (snd (instance_from_db example_lookup
       (0, PInt 2023, PStr ''Good work'', PInt 1) empty_world)))) 0 = Some 0 \<and>
   review_id (heap (snd (save 0 (snd (instance_from_db example_lookup
       (0, PInt 2023, PStr ''Good work'', PInt 1) empty_world)))) 0) = Some 1"
proof -
  have y: "year_check (PInt 2023) = None" by (simp add: year_check_def)
  have s: "summary_check (PStr ''Good work'') = None"
    by (simp add: summary_check_def strip_def py_isspace_def)
  have e: "example_lookup (PInt 1)" by (simp add: example_lookup_def)
  have n: "all_dict empty_world 0 = None" by (simp add: empty_world_def)
  show ?thesis
    unfolding instance_from_db_fresh [where E = example_lookup and e = "PInt 1", OF n y s e]
    by (simp add: empty_world_def save_def truthy_id_def Let_def insert_row_def new_rowid_def
          bind_check_def int64_def)
qed

text \<open>
  C9. \<open>update\<close> and \<open>delete\<close> leave the rows whose id is not the instance's id as they
  were, in the same order.
\<close>

theorem update_delete_frame:
  "filter (\<lambda>r. Some (fst r) \<noteq> review_id (heap w a)) (table (snd (update a w))) =
     filter (\<lambda>r. Some (fst r) \<noteq> review_id (heap w a)) (table w) \<and>
   filter (\<lambda>r. Some (fst r) \<noteq> review_id (heap w a)) (table (delete a w)) =
     filter (\<lambda>r. Some (fst r) \<noteq> review_id (heap w a)) (table w)"
proof -
  have "filter (\<lambda>r. Some (fst r) \<noteq> review_id (heap w a)) (table (snd (update a w))) =
     filter (\<lambda>r. Some (fst r) \<noteq> review_id (heap w a)) (table w)"
    using update_table_cases [of a w] by (auto simp: filter_update_row)
  moreover have
    "filter (\<lambda>r. Some (fst r) \<noteq> review_id (heap w a)) (table (delete a w)) =
     filter (\<lambda>r. Some (fst r) \<noteq> review_id (heap w a)) (table w)"
    by (simp add: delete_def Let_def filter_delete_row)
  ultimately show ?thesis by simp
qed

text \<open>
  C10. Assigning True or False to \<open>year\<close> raises the ValueError "Year must be an
  integer." and leaves the instance as it was; the constructor raises the same error.
\<close>

theorem year_setter_rejects_bool:
  "year_setter (PBool b) self = (Inl (ValueError ''Year must be an integer.''), self) \<and>
   setattr_year a (PBool b) w = (Inl (ValueError ''Year must be an integer.''), w) \<and>
   init E (PBool b) s e i = Inl (ValueError ''Year must be an integer.'')"
  by (simp add: year_setter_def setattr_year_def year_check_def init_def)

end
